theory Spec2Isabelle
  imports Complex_Main
begin

section \<open>Go values and errors\<close>

text \<open>
  Go's \<open>int\<close> values are only copied, printed in decimal and parsed back by this
  resource; no arithmetic is performed on them.  They are modelled as \<open>int\<close>, and the
  one place where a width matters (\<open>strconv.ParseInt\<close> with bit size 32) carries its range
  check explicitly.  A \<open>float64\<close> threshold is only copied, and is modelled as \<open>real\<close>.
\<close>

type_synonym float64 = real

datatype error =
    ErrNotFound
  | ErrSyntax string
  | ErrRange string
  | MalformedIdentifierError string
  | RemoteError string
  | Errorf string

text \<open>
  A Go function either returns to its caller or ends the whole process through
  \<open>os.Exit\<close>; the exit status and the text printed just before are kept.
\<close>

datatype 'a outcome = Returned 'a | Exited int string


fun returned :: "'a outcome \<Rightarrow> 'a option" where
  "returned (Returned v) = Some v"
| "returned (Exited status msg) = None"

section \<open>strconv\<close>

definition isDigit :: "char \<Rightarrow> bool" where
  "isDigit c \<longleftrightarrow> (48::nat) \<le> of_char c \<and> (of_char c :: nat) \<le> 57"

definition digitVal :: "char \<Rightarrow> nat" where
  "digitVal c = of_char c - 48"

definition digitChar :: "nat \<Rightarrow> char" where
  "digitChar k = char_of (48 + k)"

text \<open>\<open>strconv.FormatUint(n, 10)\<close>: the decimal digits of \<open>n\<close>, most significant first.\<close>

function FormatUint :: "nat \<Rightarrow> string" where
  "FormatUint n =
     (if n < 10 then [digitChar n] else FormatUint (n div 10) @ [digitChar (n mod 10)])"
  by pat_completeness auto
termination
  by (relation "measure (\<lambda>n. n)") auto

declare FormatUint.simps [simp del]

text \<open>\<open>strconv.Itoa\<close>: a minus sign for a negative value, then the digits of its magnitude.\<close>

definition Itoa :: "int \<Rightarrow> string" where
  "Itoa i = (if i < 0 then CHR ''-'' # FormatUint (nat (- i)) else FormatUint (nat i))"

text \<open>
  The digit loop of \<open>strconv.ParseUint(s, 10, bitSize)\<close>: a byte that is no decimal digit
  is a syntax error; a running value above \<open>maxVal = 2 ^ bitSize - 1\<close> is a range error.
  (The 64-bit overflow guard of the Go loop can only fire after \<open>maxVal\<close> is exceeded.)
\<close>

datatype numErr = SyntaxErr | RangeErr

fun parseUint_loop :: "nat \<Rightarrow> nat \<Rightarrow> string \<Rightarrow> numErr + nat" where
  "parseUint_loop maxVal n [] = Inr n"
| "parseUint_loop maxVal n (c # cs) =
     (if \<not> isDigit c then Inl SyntaxErr
      else let n1 = n * 10 + digitVal c
           in if n1 > maxVal then Inl RangeErr else parseUint_loop maxVal n1 cs)"

definition ParseUint :: "string \<Rightarrow> nat \<Rightarrow> numErr + nat" where
  "ParseUint s bitSize =
     (if s = [] then Inl SyntaxErr else parseUint_loop (2 ^ bitSize - 1) 0 s)"

text \<open>
  \<open>strconv.ParseInt(s, 10, bitSize)\<close>: an optional sign, then \<open>ParseUint\<close>; the magnitude
  must stay below \<open>2 ^ (bitSize - 1)\<close> (or reach it, for a negative value).
\<close>

definition ParseInt :: "string \<Rightarrow> nat \<Rightarrow> error + int" where
  "ParseInt s0 bitSize =
     (if s0 = [] then Inl (ErrSyntax s0)
      else
        let neg = (hd s0 = CHR ''-'');
            s = (if hd s0 = CHR ''+'' \<or> hd s0 = CHR ''-'' then tl s0 else s0);
            cutoff = (2::nat) ^ (bitSize - 1)
        in case ParseUint s bitSize of
             Inl SyntaxErr \<Rightarrow> Inl (ErrSyntax s0)
           | Inl RangeErr \<Rightarrow> Inl (ErrRange s0)
           | Inr un \<Rightarrow>
               if \<not> neg \<and> un \<ge> cutoff then Inl (ErrRange s0)
               else if neg \<and> un > cutoff then Inl (ErrRange s0)
               else Inr (if neg then - int un else int un))"

section \<open>Composite identifier codec\<close>

text \<open>
  Modelled from the spec: \<open>serializeIDs\<close> and \<open>parseIDs\<close> are called by this
  resource but defined elsewhere in the provider.  The spec describes them as
  \<open>encode(policyID, conditionID) -> token\<close> and
  \<open>decode(token, expectedPartCount) -> ordered sequence of integers\<close>, where decoding
  fails if the token does not split into exactly \<open>expectedPartCount\<close> integer parts.
  The token is taken to be the decimal integers joined by a colon; an integer part is an
  optional sign followed by one or more decimal digits, with no bound on its value (the
  spec states none).
\<close>

fun join_colon :: "string list \<Rightarrow> string" where
  "join_colon [] = []"
| "join_colon [s] = s"
| "join_colon (s # t # ss) = s @ CHR '':'' # join_colon (t # ss)"

fun split_colon :: "string \<Rightarrow> string list" where
  "split_colon [] = [[]]"
| "split_colon (c # cs) =
     (if c = CHR '':'' then [] # split_colon cs
      else (case split_colon cs of [] \<Rightarrow> [[c]] | p # ps \<Rightarrow> (c # p) # ps))"

definition isDigits :: "string \<Rightarrow> bool" where
  "isDigits cs \<longleftrightarrow> cs \<noteq> [] \<and> list_all isDigit cs"

definition digitsValue :: "string \<Rightarrow> nat" where
  "digitsValue cs = foldl (\<lambda>n c. n * 10 + digitVal c) 0 cs"

definition parseInteger :: "string \<Rightarrow> int option" where
  "parseInteger s =
     (case s of
        [] \<Rightarrow> None
      | c # cs \<Rightarrow>
          if c = CHR ''-'' then (if isDigits cs then Some (- int (digitsValue cs)) else None)
          else if c = CHR ''+'' then (if isDigits cs then Some (int (digitsValue cs)) else None)
          else if isDigits s then Some (int (digitsValue s)) else None)"

definition serializeIDs :: "int list \<Rightarrow> string" where
  "serializeIDs ids = join_colon (map Itoa ids)"

definition parseIDs :: "string \<Rightarrow> nat \<Rightarrow> error + int list" where
  "parseIDs serializedID count =
     (let rawIDs = split_colon serializedID
      in if length rawIDs \<noteq> count then Inl (MalformedIdentifierError serializedID)
         else case those (map parseInteger rawIDs) of
                None \<Rightarrow> Inl (MalformedIdentifierError serializedID)
              | Some ids \<Rightarrow> Inr ids)"

section \<open>The remote model: \<open>newrelic.AlertCondition\<close>\<close>

record AlertConditionTerm =
  Duration :: int
  Operator :: string
  Priority :: string
  Threshold :: float64
  TimeFunction :: string

record AlertConditionNRQL =
  Query :: string
  SinceValue :: int

record AlertConditionUserDefined =
  UD_Metric :: string
  UD_ValueFunction :: string

record AlertCondition =
  PolicyID :: int
  ID :: int
  Type :: string
  Name :: string
  Enabled :: bool
  Entities :: "string list"
  Metric :: string
  RunbookURL :: string
  Terms :: "AlertConditionTerm list"
  UserDefined :: AlertConditionUserDefined
  Scope :: string
  NRQL :: "AlertConditionNRQL list"
  ValueFunction :: string

section \<open>The configuration document: \<open>schema.ResourceData\<close>\<close>

text \<open>
  The document holds one value per schema key (prefixed \<open>d_\<close> here), of the type the
  schema gives it, and the resource id.  \<open>d.Get\<close> returns the value, the zero value when
  the key was never set; \<open>d.GetOk\<close> also tells whether the value differs from the zero
  value of its type (the empty string, the empty list).
\<close>

record term_block =
  duration :: int
  operator :: string
  priority :: string
  threshold :: float64
  time_function :: string

record nrql_block =
  query :: string
  since_value :: int

record ResourceData =
  d_id :: string
  d_policy_id :: int
  d_name :: string
  d_type :: string
  d_entities :: "int list"
  d_metric :: string
  d_runbook_url :: string
  d_condition_scope :: string
  d_term :: "term_block list"
  d_value_function :: string
  d_nrql :: "nrql_block list"
  d_user_defined_metric :: string
  d_user_defined_value_function :: string

definition GetOk_string :: "string \<Rightarrow> bool" where
  "GetOk_string v \<longleftrightarrow> v \<noteq> []"

definition GetOk_list :: "'a list \<Rightarrow> bool" where
  "GetOk_list v \<longleftrightarrow> v \<noteq> []"

text \<open>
  \<open>d.Set\<close> stores a value under a key and reports an error when the value does not have
  the key's schema type; every value this resource stores has that type.
\<close>

definition Set :: "(ResourceData \<Rightarrow> ResourceData) \<Rightarrow> ResourceData \<Rightarrow> error option \<times> ResourceData" where
  "Set upd d = (None, upd d)"

section \<open>Schema and term-duration validator\<close>

text \<open>
  Modelled from the spec: \<open>intInSlice\<close> is defined elsewhere in the provider.  The spec
  has the validator accept a value exactly when it is in the allowed set.
\<close>

definition intInSlice :: "int list \<Rightarrow> int \<Rightarrow> bool" where
  "intInSlice valid v \<longleftrightarrow> v \<in> set valid"

text \<open>The package variable \<open>isNRQL\<close> starts out false.\<close>

definition isNRQL_init :: bool where
  "isNRQL_init = False"

definition intInSliceDuration :: "bool \<Rightarrow> int \<Rightarrow> bool" where
  "intInSliceDuration isNRQL =
     (if isNRQL then intInSlice [1, 2, 3, 4, 5, 10, 15, 30, 60, 120]
      else intInSlice [5, 10, 15, 30, 60, 120])"

text \<open>
  The part of the resource descriptor that holds validators of integer fields.  The
  descriptor is built once, when the provider is set up, from the value \<open>isNRQL\<close> has then.
\<close>

record Resource =
  term_duration_ValidateFunc :: "int \<Rightarrow> bool"
  nrql_since_value_ValidateFunc :: "int \<Rightarrow> bool"

definition resourceNewRelicAlertCondition :: "bool \<Rightarrow> Resource" where
  "resourceNewRelicAlertCondition isNRQL =
     \<lparr> term_duration_ValidateFunc = intInSliceDuration isNRQL,
       nrql_since_value_ValidateFunc = intInSlice [1, 2, 3, 4, 5] \<rparr>"

text \<open>The configuration engine runs a field's validator on every term of a document.\<close>

definition validate_term_durations :: "Resource \<Rightarrow> ResourceData \<Rightarrow> bool" where
  "validate_term_durations r d =
     list_all (term_duration_ValidateFunc r) (map duration (d_term d))"

section \<open>\<open>buildAlertConditionStruct\<close>\<close>

text \<open>
  The function takes the value of the package variable \<open>isNRQL\<close> and returns its new
  value beside the outcome.
\<close>

definition buildAlertConditionStruct ::
  "bool \<Rightarrow> ResourceData \<Rightarrow> bool \<times> AlertCondition outcome" where
  "buildAlertConditionStruct isNRQL d =
    (let isNRQL' = (if GetOk_list (d_nrql d) then True else isNRQL);
         terms = map (\<lambda>termM.
                   \<lparr> Duration = duration termM,
                     Operator = operator termM,
                     Priority = priority termM,
                     Threshold = threshold termM,
                     TimeFunction = time_function termM \<rparr>) (d_term d);
         condition =
           \<lparr> PolicyID = d_policy_id d, ID = 0, Type = [], Name = d_name d, Enabled = True,
             Entities = [], Metric = [], RunbookURL = [], Terms = terms,
             UserDefined = \<lparr> UD_Metric = [], UD_ValueFunction = [] \<rparr>,
             Scope = d_condition_scope d, NRQL = [], ValueFunction = [] \<rparr>;
         shaped =
           (if GetOk_list (d_nrql d) then
              if GetOk_string (d_type d) then Exited 1 ''No type entry for NRQL query''
              else if GetOk_list (d_entities d) then Exited 1 ''No entities for NRQL query''
              else if GetOk_string (d_metric d) then Exited 1 ''No metric for NRQL query''
              else
                let prop = map (\<lambda>propM.
                             \<lparr> Query = query propM, SinceValue = since_value propM \<rparr>) (d_nrql d)
                in Returned condition
            else
              if \<not> GetOk_string (d_metric d)
              then Exited 1 ''Must set matric value for metric-type conditions''
              else
                let condition = condition \<lparr> Metric := d_metric d \<rparr>
                in if \<not> GetOk_list (d_entities d)
                   then Exited 1 ''Must set entities for metric-type conditions''
                   else
                     let condition = condition \<lparr> Entities := map Itoa (d_entities d) \<rparr>
                     in if \<not> GetOk_string (d_type d)
                        then Exited 1 ''Must set type for metric-type conditions''
                        else Returned (condition \<lparr> Type := d_type d \<rparr>))
     in (isNRQL',
         case shaped of
           Exited status msg \<Rightarrow> Exited status msg
         | Returned condition \<Rightarrow>
             let condition =
                   (if GetOk_string (d_runbook_url d)
                    then condition \<lparr> RunbookURL := d_runbook_url d \<rparr> else condition);
                 condition =
                   (if GetOk_string (d_user_defined_metric d)
                    then (if GetOk_string (d_user_defined_value_function d)
                          then condition \<lparr> UserDefined :=
                                 \<lparr> UD_Metric = d_user_defined_metric d,
                                   UD_ValueFunction = d_user_defined_value_function d \<rparr> \<rparr>
                          else condition)
                    else condition)
             in Returned condition))"

section \<open>\<open>readAlertConditionStruct\<close>\<close>

text \<open>The loop that converts the entity strings, stopping at the first that fails.\<close>

fun entities_loop :: "string list \<Rightarrow> error + int list" where
  "entities_loop [] = Inr []"
| "entities_loop (entity # rest) =
     (case ParseInt entity 32 of
        Inl err \<Rightarrow> Inl err
      | Inr v \<Rightarrow> (case entities_loop rest of Inl err \<Rightarrow> Inl err | Inr vs \<Rightarrow> Inr (v # vs)))"

text \<open>
  The function returns its error (if any) beside the document as it is after the call.
  \<open>parseIDs\<close> with count 2 returns two integers when it succeeds
  (lemma \<open>parseIDs_length\<close>), so the reads of \<open>ids[0]\<close> and \<open>ids[1]\<close> are in range.
\<close>

definition readAlertConditionStruct ::
  "AlertCondition \<Rightarrow> ResourceData \<Rightarrow> error option \<times> ResourceData" where
  "readAlertConditionStruct condition d =
    (case parseIDs (d_id d) 2 of
       Inl err \<Rightarrow> (Some err, d)
     | Inr ids \<Rightarrow>
        (let policyID = ids ! 0
         in (case entities_loop (Entities condition) of
               Inl err \<Rightarrow> (Some err, d)
             | Inr entities \<Rightarrow>
                (let d = snd (Set (\<lambda>d. d \<lparr> d_policy_id := policyID \<rparr>) d);
                     d = snd (Set (\<lambda>d. d \<lparr> d_name := Name condition \<rparr>) d);
                     d = snd (Set (\<lambda>d. d \<lparr> d_type := Type condition \<rparr>) d);
                     d = snd (Set (\<lambda>d. d \<lparr> d_metric := Metric condition \<rparr>) d);
                     d = snd (Set (\<lambda>d. d \<lparr> d_runbook_url := RunbookURL condition \<rparr>) d);
                     d = snd (Set (\<lambda>d. d \<lparr> d_condition_scope := Scope condition \<rparr>) d);
                     d = snd (Set (\<lambda>d. d \<lparr> d_user_defined_metric :=
                                           UD_Metric (UserDefined condition) \<rparr>) d);
                     d = snd (Set (\<lambda>d. d \<lparr> d_user_defined_value_function :=
                                           UD_ValueFunction (UserDefined condition) \<rparr>) d);
                     d = snd (Set (\<lambda>d. d \<lparr> d_value_function := ValueFunction condition \<rparr>) d)
                 in (case Set (\<lambda>d. d \<lparr> d_entities := entities \<rparr>) d of
                       (Some err, d) \<Rightarrow>
                         (Some (Errorf ''[DEBUG] Error setting alert condition entities''), d)
                     | (None, d) \<Rightarrow>
                        (let terms = map (\<lambda>src.
                                       \<lparr> duration = Duration src,
                                         operator = Operator src,
                                         priority = Priority src,
                                         threshold = Threshold src,
                                         time_function = TimeFunction src \<rparr>) (Terms condition)
                         in (case Set (\<lambda>d. d \<lparr> d_term := terms \<rparr>) d of
                               (Some err, d) \<Rightarrow>
                                 (Some (Errorf ''[DEBUG] Error setting alert condition terms''), d)
                             | (None, d) \<Rightarrow>
                                (let nrql = map (\<lambda>src.
                                              \<lparr> query = Query src,
                                                since_value = SinceValue src \<rparr>)
                                            (NRQL condition)
                                 in (case Set (\<lambda>d. d \<lparr> d_nrql := nrql \<rparr>) d of
                                       (Some err, d) \<Rightarrow>
                                         (Some (Errorf
                                            ''[DEBUG] Error setting alert condition nrql''), d)
                                     | (None, d) \<Rightarrow> (None, d))))))))))"

section \<open>Lifecycle operations\<close>

text \<open>
  The remote client is external; an operation makes one call to it, so the client is
  modelled by the answers it gives.
\<close>

record Client =
  CreateAlertCondition :: "AlertCondition \<Rightarrow> error + AlertCondition"
  GetAlertCondition :: "int \<Rightarrow> int \<Rightarrow> error + AlertCondition"
  UpdateAlertCondition :: "AlertCondition \<Rightarrow> error + AlertCondition"
  DeleteAlertCondition :: "int \<Rightarrow> int \<Rightarrow> error option"

definition resourceNewRelicAlertConditionCreate ::
  "Client \<Rightarrow> bool \<Rightarrow> ResourceData \<Rightarrow> bool \<times> (error option \<times> ResourceData) outcome" where
  "resourceNewRelicAlertConditionCreate client isNRQL d =
    (case buildAlertConditionStruct isNRQL d of
       (isNRQL', Exited status msg) \<Rightarrow> (isNRQL', Exited status msg)
     | (isNRQL', Returned condition) \<Rightarrow>
        (isNRQL',
         (case CreateAlertCondition client condition of
            Inl err \<Rightarrow> Returned (Some err, d)
          | Inr condition \<Rightarrow>
              Returned (None, d \<lparr> d_id := serializeIDs [PolicyID condition, ID condition] \<rparr>))))"

definition resourceNewRelicAlertConditionRead ::
  "Client \<Rightarrow> ResourceData \<Rightarrow> error option \<times> ResourceData" where
  "resourceNewRelicAlertConditionRead client d =
    (case parseIDs (d_id d) 2 of
       Inl err \<Rightarrow> (Some err, d)
     | Inr ids \<Rightarrow>
        (let policyID = ids ! 0; id = ids ! 1
         in (case GetAlertCondition client policyID id of
               Inl err \<Rightarrow>
                 if err = ErrNotFound then (None, d \<lparr> d_id := [] \<rparr>) else (Some err, d)
             | Inr condition \<Rightarrow> readAlertConditionStruct condition d)))"

definition resourceNewRelicAlertConditionUpdate ::
  "Client \<Rightarrow> bool \<Rightarrow> ResourceData \<Rightarrow> bool \<times> (error option \<times> ResourceData) outcome" where
  "resourceNewRelicAlertConditionUpdate client isNRQL d =
    (case buildAlertConditionStruct isNRQL d of
       (isNRQL', Exited status msg) \<Rightarrow> (isNRQL', Exited status msg)
     | (isNRQL', Returned condition) \<Rightarrow>
        (isNRQL',
         (case parseIDs (d_id d) 2 of
            Inl err \<Rightarrow> Returned (Some err, d)
          | Inr ids \<Rightarrow>
             (let policyID = ids ! 0; id = ids ! 1;
                  condition = condition \<lparr> PolicyID := policyID, ID := id \<rparr>
              in (case UpdateAlertCondition client condition of
                    Inl err \<Rightarrow> Returned (Some err, d)
                  | Inr updatedCondition \<Rightarrow>
                      Returned (readAlertConditionStruct updatedCondition d))))))"

definition resourceNewRelicAlertConditionDelete ::
  "Client \<Rightarrow> ResourceData \<Rightarrow> error option \<times> ResourceData" where
  "resourceNewRelicAlertConditionDelete client d =
    (case parseIDs (d_id d) 2 of
       Inl err \<Rightarrow> (Some err, d)
     | Inr ids \<Rightarrow>
        (let policyID = ids ! 0; id = ids ! 1
         in (case DeleteAlertCondition client policyID id of
               Some err \<Rightarrow> (Some err, d)
             | None \<Rightarrow> (None, d \<lparr> d_id := [] \<rparr>))))"

section \<open>Specification predicates and example inputs\<close>

text \<open>
  A token splits into \<open>n\<close> integer parts when it is \<open>n\<close> colon-free integer
  literals joined by colons.
\<close>

definition splits_into_integer_parts :: "string \<Rightarrow> nat \<Rightarrow> bool" where
  "splits_into_integer_parts token n \<longleftrightarrow>
     (\<exists>parts. length parts = n \<and> token = join_colon parts \<and>
        (\<forall>p \<in> set parts. CHR '':'' \<notin> set p \<and> parseInteger p \<noteq> None))"

text \<open>
  A document has exactly one shape when it has an \<open>nrql\<close> block and none of
  \<open>type\<close>, \<open>entities\<close>, \<open>metric\<close>, or no \<open>nrql\<close> block and all three of them.
\<close>

definition nrql_shaped :: "ResourceData \<Rightarrow> bool" where
  "nrql_shaped d \<longleftrightarrow>
     d_nrql d \<noteq> [] \<and> d_type d = [] \<and> d_entities d = [] \<and> d_metric d = []"

definition metric_shaped :: "ResourceData \<Rightarrow> bool" where
  "metric_shaped d \<longleftrightarrow>
     d_nrql d = [] \<and> d_type d \<noteq> [] \<and> d_entities d \<noteq> [] \<and> d_metric d \<noteq> []"

text \<open>The values \<open>strconv.ParseInt\<close> with bit size 32 can return.\<close>

definition is_int32 :: "int \<Rightarrow> bool" where
  "is_int32 v \<longleftrightarrow> - (2 ^ 31) \<le> v \<and> v < 2 ^ 31"

definition example_term :: term_block where
  "example_term =
     \<lparr> duration = 5, operator = ''below'', priority = ''critical'',
       threshold = 3 / 4, time_function = ''all'' \<rparr>"

definition metric_doc :: ResourceData where
  "metric_doc =
     \<lparr> d_id = ''7:11'', d_policy_id = 7, d_name = ''tf-test-foo'',
       d_type = ''apm_app_metric'', d_entities = [42], d_metric = ''apdex'',
       d_runbook_url = ''https://foo.example.com'', d_condition_scope = ''application'',
       d_term = [example_term], d_value_function = ''single_value'', d_nrql = [],
       d_user_defined_metric = [], d_user_defined_value_function = [] \<rparr>"

definition nrql_doc :: ResourceData where
  "nrql_doc =
     \<lparr> d_id = ''7:12'', d_policy_id = 7, d_name = ''tf-test-nrql-foo'',
       d_type = [], d_entities = [], d_metric = [],
       d_runbook_url = ''https://foo.example.com'', d_condition_scope = [],
       d_term = [example_term \<lparr> duration := 1 \<rparr>], d_value_function = ''single_value'',
       d_nrql = [\<lparr> query = ''SELECT count(*) from SyntheticCheck'', since_value = 3 \<rparr>],
       d_user_defined_metric = [], d_user_defined_value_function = [] \<rparr>"



definition metric_condition :: AlertCondition where
  "metric_condition =
     \<lparr> PolicyID = 7, ID = 11, Type = ''apm_app_metric'', Name = ''tf-test-foo'',
       Enabled = True, Entities = [''42''], Metric = ''apdex'',
       RunbookURL = ''https://foo.example.com'',
       Terms = [\<lparr> Duration = 5, Operator = ''below'', Priority = ''critical'',
                  Threshold = 3 / 4, TimeFunction = ''all'' \<rparr>],
       UserDefined = \<lparr> UD_Metric = [], UD_ValueFunction = [] \<rparr>,
       Scope = ''application'', NRQL = [], ValueFunction = ''single_value'' \<rparr>"

definition nrql_condition :: AlertCondition where
  "nrql_condition =
     \<lparr> PolicyID = 7, ID = 12, Type = [], Name = ''tf-test-nrql-foo'',
       Enabled = True, Entities = [], Metric = [],
       RunbookURL = ''https://foo.example.com'',
       Terms = [\<lparr> Duration = 5, Operator = ''below'', Priority = ''critical'',
                  Threshold = 3 / 4, TimeFunction = ''all'' \<rparr>],
       UserDefined = \<lparr> UD_Metric = [], UD_ValueFunction = [] \<rparr>,
       Scope = [],
       NRQL = [\<lparr> Query = ''SELECT count(*) from SyntheticCheck'', SinceValue = 3 \<rparr>],
       ValueFunction = ''sum'' \<rparr>"

definition bad_entity_condition :: AlertCondition where
  "bad_entity_condition = metric_condition \<lparr> Entities := [''42'', ''4x2''] \<rparr>"

definition failing_client :: "error \<Rightarrow> Client" where
  "failing_client e =
     \<lparr> CreateAlertCondition = (\<lambda>c. Inl e),
       GetAlertCondition = (\<lambda>p c. Inl e),
       UpdateAlertCondition = (\<lambda>c. Inl e),
       DeleteAlertCondition = (\<lambda>p c. Some e) \<rparr>"

section \<open>Decimal printing and parsing\<close>

lemma isDigit_digitChar: "k < 10 \<Longrightarrow> isDigit (digitChar k)"
  by (simp add: isDigit_def digitChar_def)

lemma digitVal_digitChar: "k < 10 \<Longrightarrow> digitVal (digitChar k) = k"
  by (simp add: digitVal_def digitChar_def)

lemma isDigit_not_punct:
  "isDigit c \<Longrightarrow> c \<noteq> CHR '':'' \<and> c \<noteq> CHR ''-'' \<and> c \<noteq> CHR ''+''"
  by (auto simp: isDigit_def)

lemma FormatUint_digits: "list_all isDigit (FormatUint n)"
proof (induction n rule: FormatUint.induct)
  case (1 n)
  show ?case
  proof (cases "n < 10")
    case True
    then show ?thesis by (simp add: FormatUint.simps [of n] isDigit_digitChar)
  next
    case False
    with 1 show ?thesis by (simp add: FormatUint.simps [of n] isDigit_digitChar)
  qed
qed

lemma FormatUint_nonempty: "FormatUint n \<noteq> []"
  by (subst FormatUint.simps) simp

lemma isDigits_FormatUint: "isDigits (FormatUint n)"
  by (simp add: isDigits_def FormatUint_nonempty FormatUint_digits)

lemma digitsValue_snoc: "digitsValue (cs @ [c]) = digitsValue cs * 10 + digitVal c"
  by (simp add: digitsValue_def)

lemma digitsValue_FormatUint: "digitsValue (FormatUint n) = n"
proof (induction n rule: FormatUint.induct)
  case (1 n)
  show ?case
  proof (cases "n < 10")
    case True
    then show ?thesis
      by (simp add: FormatUint.simps [of n] digitsValue_def digitVal_digitChar)
  next
    case False
    with 1 have "digitsValue (FormatUint (n div 10)) = n div 10" by simp
    with False show ?thesis
      by (simp add: FormatUint.simps [of n] digitsValue_snoc digitVal_digitChar)
  qed
qed

lemma foldl_digits_ge: "n \<le> foldl (\<lambda>n c. n * 10 + digitVal c) n cs"
proof (induction cs arbitrary: n)
  case Nil
  show ?case by simp
next
  case (Cons c cs)
  have "n \<le> n * 10 + digitVal c" by simp
  also have "\<dots> \<le> foldl (\<lambda>n c. n * 10 + digitVal c) (n * 10 + digitVal c) cs"
    by (rule Cons.IH)
  finally show ?case by simp
qed

lemma parseUint_loop_digits:
  "list_all isDigit cs \<Longrightarrow> foldl (\<lambda>n c. n * 10 + digitVal c) n cs \<le> maxVal
   \<Longrightarrow> parseUint_loop maxVal n cs = Inr (foldl (\<lambda>n c. n * 10 + digitVal c) n cs)"
proof (induction cs arbitrary: n)
  case Nil
  show ?case by simp
next
  case (Cons c cs)
  have "n * 10 + digitVal c \<le> foldl (\<lambda>n c. n * 10 + digitVal c) (n * 10 + digitVal c) cs"
    by (rule foldl_digits_ge)
  with Cons.prems have "n * 10 + digitVal c \<le> maxVal" by simp
  with Cons show ?case by simp
qed

lemma ParseUint_FormatUint:
  "n \<le> 2 ^ bitSize - 1 \<Longrightarrow> ParseUint (FormatUint n) bitSize = Inr n"
  using parseUint_loop_digits [of "FormatUint n" 0 "2 ^ bitSize - 1"]
  by (simp add: ParseUint_def FormatUint_nonempty FormatUint_digits
      digitsValue_FormatUint [unfolded digitsValue_def])

lemma hd_FormatUint: "isDigit (hd (FormatUint n))"
  using FormatUint_digits [of n] FormatUint_nonempty [of n]
  by (cases "FormatUint n") simp_all

lemma ParseInt_Itoa:
  assumes "- (2 ^ 31) \<le> i" and "i < 2 ^ 31"
  shows "ParseInt (Itoa i) 32 = Inr i"
proof (cases "i < 0")
  case True
  with assms have "nat (- i) \<le> 2 ^ 32 - 1" by simp
  then have "ParseUint (FormatUint (nat (- i))) 32 = Inr (nat (- i))"
    by (rule ParseUint_FormatUint)
  moreover from assms True have "\<not> nat (- i) > 2 ^ 31" by simp
  ultimately show ?thesis using True
    by (simp add: ParseInt_def Itoa_def)
next
  case False
  with assms have "nat i \<le> 2 ^ 32 - 1" by simp
  then have "ParseUint (FormatUint (nat i)) 32 = Inr (nat i)"
    by (rule ParseUint_FormatUint)
  moreover from assms False have "\<not> nat i \<ge> 2 ^ 31" by simp
  moreover have "hd (FormatUint (nat i)) \<noteq> CHR ''-''" "hd (FormatUint (nat i)) \<noteq> CHR ''+''"
    using hd_FormatUint [of "nat i"] isDigit_not_punct by blast+
  ultimately show ?thesis using False
    by (simp add: ParseInt_def Itoa_def FormatUint_nonempty)
qed

lemma parseInteger_Itoa: "parseInteger (Itoa i) = Some i"
proof (cases "i < 0")
  case True
  then show ?thesis
    by (simp add: parseInteger_def Itoa_def isDigits_FormatUint digitsValue_FormatUint)
next
  case False
  obtain c cs where f: "FormatUint (nat i) = c # cs"
    using FormatUint_nonempty [of "nat i"] by (cases "FormatUint (nat i)") auto
  with hd_FormatUint [of "nat i"] have "isDigit c" by simp
  then have "c \<noteq> CHR ''-''" "c \<noteq> CHR ''+''" using isDigit_not_punct by blast+
  with False f isDigits_FormatUint [of "nat i"] digitsValue_FormatUint [of "nat i"]
  show ?thesis by (simp add: parseInteger_def Itoa_def)
qed

lemma Itoa_no_colon: "CHR '':'' \<notin> set (Itoa i)"
  using FormatUint_digits isDigit_not_punct
  by (auto simp: Itoa_def list_all_iff)

section \<open>Splitting and joining tokens\<close>

lemma split_colon_nonempty: "split_colon s \<noteq> []"
  by (induction s) (auto split: list.splits)

lemma split_colon_no_colon: "CHR '':'' \<notin> set a \<Longrightarrow> split_colon a = [a]"
  by (induction a) auto

lemma split_colon_append:
  "CHR '':'' \<notin> set a \<Longrightarrow> split_colon (a @ CHR '':'' # b) = a # split_colon b"
  by (induction a) auto

lemma split_join_colon:
  "parts \<noteq> [] \<Longrightarrow> \<forall>p \<in> set parts. CHR '':'' \<notin> set p
   \<Longrightarrow> split_colon (join_colon parts) = parts"
  by (induction parts rule: join_colon.induct)
     (auto simp: split_colon_no_colon split_colon_append)

lemma join_split_colon: "join_colon (split_colon s) = s"
proof (induction s)
  case Nil
  show ?case by simp
next
  case (Cons c s)
  obtain p ps where sp: "split_colon s = p # ps"
    using split_colon_nonempty [of s] by (cases "split_colon s") auto
  with Cons show ?case by (cases ps) auto
qed

lemma split_colon_parts: "p \<in> set (split_colon s) \<Longrightarrow> CHR '':'' \<notin> set p"
  by (induction s arbitrary: p) (auto split: if_splits list.splits)

section \<open>The identifier codec\<close>

lemma those_map_Some:
  "(\<forall>p \<in> set ps. f p \<noteq> None) \<Longrightarrow> \<exists>ys. those (map f ps) = Some ys \<and> length ys = length ps"
  by (induction ps) auto

lemma those_map_None:
  "p \<in> set ps \<Longrightarrow> f p = None \<Longrightarrow> those (map f ps) = None"
  by (induction ps) (auto split: option.splits)

lemma those_length: "those xs = Some ys \<Longrightarrow> length ys = length xs"
  by (induction xs arbitrary: ys) (auto split: option.splits)

lemma parseIDs_length: "parseIDs s n = Inr ids \<Longrightarrow> length ids = n"
  by (auto simp: parseIDs_def Let_def split: if_splits option.splits dest: those_length)

lemma parseIDs_serializeIDs_pair: "parseIDs (serializeIDs [p, c]) 2 = Inr [p, c]"
proof -
  have "split_colon (serializeIDs [p, c]) = [Itoa p, Itoa c]"
    by (simp add: serializeIDs_def split_colon_append split_colon_no_colon Itoa_no_colon)
  then show ?thesis
    by (simp add: parseIDs_def parseInteger_Itoa)
qed

text \<open>
  Claim C4.  For all non-negative integers \<open>p\<close> and \<open>c\<close>, decoding with expected part
  count 2 the token that encodes the pair \<open>(p, c)\<close> yields exactly \<open>(p, c)\<close>.
\<close>

theorem C4_roundtrip:
  "0 \<le> p \<Longrightarrow> 0 \<le> c \<Longrightarrow> parseIDs (serializeIDs [p, c]) 2 = Inr [p, c]"
  by (rule parseIDs_serializeIDs_pair)

theorem C4_roundtrip_witness:
  "(0::int) \<le> 7 \<and> (0::int) \<le> 11 \<and> serializeIDs [7, 11] = ''7:11''
   \<and> parseIDs ''7:11'' 2 = Inr [7, 11]"
proof -
  have s: "serializeIDs [7, 11] = ''7:11''" by code_simp
  have r: "parseIDs (serializeIDs [7, 11]) 2 = Inr [7, 11]"
    by (rule C4_roundtrip) simp_all
  then have r': "parseIDs ''7:11'' 2 = Inr [7, 11]" by (simp only: s)
  have p: "(0::int) \<le> 7" "(0::int) \<le> 11" by simp_all
  from p s r' show ?thesis by (intro conjI)
qed

text \<open>
  Claim C5.  Decoding with expected part count 2 succeeds, with two integers, for every
  token that splits into exactly 2 integer parts, and fails with a
  \<open>MalformedIdentifierError\<close> for every token that does not (fewer parts, more parts,
  or a part that is no integer).
\<close>

theorem C5_decode:
  "(splits_into_integer_parts token 2 \<longrightarrow>
      (\<exists>ids. parseIDs token 2 = Inr ids \<and> length ids = 2)) \<and>
   (\<not> splits_into_integer_parts token 2 \<longrightarrow>
      parseIDs token 2 = Inl (MalformedIdentifierError token))"
proof (intro conjI impI)
  assume "splits_into_integer_parts token 2"
  then obtain parts where len: "length parts = 2" and tok: "token = join_colon parts"
    and ok: "\<forall>p \<in> set parts. CHR '':'' \<notin> set p \<and> parseInteger p \<noteq> None"
    unfolding splits_into_integer_parts_def by (elim exE conjE)
  from len have ne: "parts \<noteq> []" by auto
  from ok have nc: "\<forall>p \<in> set parts. CHR '':'' \<notin> set p" by simp
  have sp: "split_colon token = parts"
    unfolding tok by (rule split_join_colon [OF ne nc])
  from ok have "\<forall>p \<in> set parts. parseInteger p \<noteq> None" by simp
  then have "\<exists>ids. those (map parseInteger parts) = Some ids \<and> length ids = length parts"
    by (rule those_map_Some)
  then obtain ids where ids: "those (map parseInteger parts) = Some ids"
    and l: "length ids = length parts" by (elim exE conjE)
  have "parseIDs token 2 = Inr ids"
    by (simp add: parseIDs_def sp len ids)
  with l len show "\<exists>ids. parseIDs token 2 = Inr ids \<and> length ids = 2" by simp
next
  assume no: "\<not> splits_into_integer_parts token 2"
  show "parseIDs token 2 = Inl (MalformedIdentifierError token)"
  proof (cases "length (split_colon token) = 2")
    case False
    then show ?thesis by (simp add: parseIDs_def)
  next
    case True
    have "\<exists>p \<in> set (split_colon token). parseInteger p = None"
    proof (rule ccontr)
      assume "\<not> ?thesis"
      then have all: "\<forall>p \<in> set (split_colon token). CHR '':'' \<notin> set p \<and> parseInteger p \<noteq> None"
        by (auto dest: split_colon_parts)
      have "length (split_colon token) = 2 \<and> token = join_colon (split_colon token) \<and>
            (\<forall>p \<in> set (split_colon token). CHR '':'' \<notin> set p \<and> parseInteger p \<noteq> None)"
        using True all by (simp add: join_split_colon)
      then have "splits_into_integer_parts token 2"
        unfolding splits_into_integer_parts_def by (rule exI)
      with no show False by simp
    qed
    then obtain p where "p \<in> set (split_colon token)" "parseInteger p = None"
      by (elim bexE)
    then have "those (map parseInteger (split_colon token)) = None"
      by (rule those_map_None)
    with True show ?thesis by (simp add: parseIDs_def)
  qed
qed

theorem C5_decode_witness:
  "splits_into_integer_parts ''7:11'' 2 \<and> (\<exists>ids. parseIDs ''7:11'' 2 = Inr ids \<and> length ids = 2)
   \<and> \<not> splits_into_integer_parts ''7:11:13'' 2
   \<and> parseIDs ''7:11:13'' 2 = Inl (MalformedIdentifierError ''7:11:13'')"
proof -
  have a: "splits_into_integer_parts ''7:11'' 2"
    unfolding splits_into_integer_parts_def
    by (rule exI [of _ "[''7'', ''11'']"])
       (simp add: parseInteger_def isDigits_def isDigit_def)
  have a': "\<exists>ids. parseIDs ''7:11'' 2 = Inr ids \<and> length ids = 2"
    by (rule C5_decode [THEN conjunct1, THEN mp, OF a])
  have e: "parseIDs ''7:11:13'' 2 = Inl (MalformedIdentifierError ''7:11:13'')"
    by (simp add: parseIDs_def)
  have b: "\<not> splits_into_integer_parts ''7:11:13'' 2"
  proof
    assume "splits_into_integer_parts ''7:11:13'' 2"
    then have "\<exists>ids. parseIDs ''7:11:13'' 2 = Inr ids \<and> length ids = 2"
      by (rule C5_decode [THEN conjunct1, THEN mp])
    then obtain ids where "parseIDs ''7:11:13'' 2 = Inr ids" by (elim exE conjE)
    then show False by (simp only: e sum.distinct)
  qed
  have e': "parseIDs ''7:11:13'' 2 = Inl (MalformedIdentifierError ''7:11:13'')"
    by (rule C5_decode [THEN conjunct2, THEN mp, OF b])
  from a a' b e' show ?thesis by (intro conjI)
qed

section \<open>Building the remote condition\<close>

lemmas build_defs = buildAlertConditionStruct_def Let_def GetOk_string_def GetOk_list_def

lemma Itoa_42: "Itoa 42 = ''42''"
  by code_simp

lemma build_metric_doc:
  "buildAlertConditionStruct isNRQL_init metric_doc =
     (False, Returned (metric_condition \<lparr> ID := 0, ValueFunction := [] \<rparr>))"
  by (simp add: build_defs isNRQL_init_def metric_doc_def metric_condition_def
      example_term_def Itoa_42)

lemma build_exits:
  "\<not> nrql_shaped d \<Longrightarrow> \<not> metric_shaped d
   \<Longrightarrow> \<exists>msg. snd (buildAlertConditionStruct g d) = Exited 1 msg"
  by (auto simp: build_defs nrql_shaped_def metric_shaped_def)

lemma build_never_sets_NRQL:
  "snd (buildAlertConditionStruct g d) = Returned c \<Longrightarrow> NRQL c = [] \<and> ValueFunction c = []"
  by (auto simp: build_defs split: if_splits)

lemma build_isNRQL: "fst (buildAlertConditionStruct g d) = (g \<or> d_nrql d \<noteq> [])"
  by (simp add: build_defs)

text \<open>
  Claim C1.  For a document with a non-empty \<open>nrql\<close> block and none of \<open>type\<close>,
  \<open>entities\<close>, \<open>metric\<close>, the build is claimed to return a condition whose NRQL
  sub-structure has one entry per block element.  Evaluated on such a document with one
  block element, the build returns, and the returned condition has no NRQL entry: the
  list built from the block is never stored in the condition.
\<close>

theorem C1_nrql_dropped:
  "nrql_shaped nrql_doc \<and> length (d_nrql nrql_doc) = 1 \<and>
   map_option NRQL (returned (snd (buildAlertConditionStruct isNRQL_init nrql_doc))) = Some []"
  by (simp add: build_defs nrql_shaped_def nrql_doc_def)




text \<open>
  Claim C8.  For every document the build accepts, the returned condition carries the
  document's name, policy id and condition scope, is enabled, and has one term per
  document term, in document order, each with that term's duration, operator, priority,
  threshold and time function.
\<close>

theorem C8_copies:
  "buildAlertConditionStruct g d = (g', Returned c) \<Longrightarrow>
     Name c = d_name d \<and> PolicyID c = d_policy_id d \<and> Scope c = d_condition_scope d \<and>
     Enabled c \<and>
     length (Terms c) = length (d_term d) \<and>
     Terms c = map (\<lambda>t. \<lparr> Duration = duration t, Operator = operator t,
                           Priority = priority t, Threshold = threshold t,
                           TimeFunction = time_function t \<rparr>) (d_term d)"
  by (auto simp: build_defs split: if_splits)

theorem C8_copies_witness:
  "buildAlertConditionStruct isNRQL_init metric_doc =
     (False, Returned (metric_condition \<lparr> ID := 0, ValueFunction := [] \<rparr>)) \<and>
   Name (metric_condition \<lparr> ID := 0, ValueFunction := [] \<rparr>) = ''tf-test-foo'' \<and>
   Enabled (metric_condition \<lparr> ID := 0, ValueFunction := [] \<rparr>) \<and>
   length (Terms (metric_condition \<lparr> ID := 0, ValueFunction := [] \<rparr>)) = 1"
  using C8_copies [OF build_metric_doc] build_metric_doc
  by (simp add: metric_doc_def)

text \<open>
  Claim C9.  For every document of exactly one shape the build returns a condition whose
  UserDefined sub-structure is the pair of \<open>user_defined_metric\<close> and
  \<open>user_defined_value_function\<close> if both are present, and is left unset otherwise; in
  particular, no error is raised when exactly one of the two is present.
\<close>

theorem C9_user_defined:
  "nrql_shaped d \<or> metric_shaped d \<Longrightarrow>
     \<exists>c. snd (buildAlertConditionStruct g d) = Returned c \<and>
       UserDefined c =
         (if d_user_defined_metric d \<noteq> [] \<and> d_user_defined_value_function d \<noteq> []
          then \<lparr> UD_Metric = d_user_defined_metric d,
                 UD_ValueFunction = d_user_defined_value_function d \<rparr>
          else \<lparr> UD_Metric = [], UD_ValueFunction = [] \<rparr>)"
  by (auto simp: build_defs nrql_shaped_def metric_shaped_def)

theorem C9_user_defined_witness:
  "metric_shaped (metric_doc \<lparr> d_user_defined_metric := ''Custom/Foo'' \<rparr>) \<and>
   (\<exists>c. snd (buildAlertConditionStruct isNRQL_init
               (metric_doc \<lparr> d_user_defined_metric := ''Custom/Foo'' \<rparr>)) = Returned c \<and>
        UserDefined c = \<lparr> UD_Metric = [], UD_ValueFunction = [] \<rparr>)"
proof -
  have m: "metric_shaped (metric_doc \<lparr> d_user_defined_metric := ''Custom/Foo'' \<rparr>)"
    by (simp add: metric_shaped_def metric_doc_def)
  then have "nrql_shaped (metric_doc \<lparr> d_user_defined_metric := ''Custom/Foo'' \<rparr>) \<or>
             metric_shaped (metric_doc \<lparr> d_user_defined_metric := ''Custom/Foo'' \<rparr>)"
    by (rule disjI2)
  from C9_user_defined [OF this, of isNRQL_init] m show ?thesis
    by (simp add: metric_doc_def)
qed

text \<open>
  Claim C6.  The duration validator is claimed to follow the shape of the condition
  being validated.  The validator of the descriptor is chosen once, from the package
  variable as it is when the descriptor is built (false at start), and takes only the
  duration: it accepts 5 and rejects 1 for a Metric-shaped condition, and it also rejects
  the term of duration 1 of a document that has a non-empty \<open>nrql\<close> block.
\<close>

theorem C6_validator_ignores_shape:
  "d_nrql nrql_doc \<noteq> [] \<and> map duration (d_term nrql_doc) = [1] \<and>
   \<not> validate_term_durations (resourceNewRelicAlertCondition isNRQL_init) nrql_doc \<and>
   term_duration_ValidateFunc (resourceNewRelicAlertCondition isNRQL_init) 5 \<and>
   \<not> term_duration_ValidateFunc (resourceNewRelicAlertCondition isNRQL_init) 1"
  by (simp add: validate_term_durations_def resourceNewRelicAlertCondition_def
      intInSliceDuration_def intInSlice_def isNRQL_init_def nrql_doc_def example_term_def)

lemma validator_after_nrql_build:
  "fst (buildAlertConditionStruct isNRQL_init nrql_doc) = True \<and>
   validate_term_durations (resourceNewRelicAlertCondition True)
     (metric_doc \<lparr> d_term := [example_term \<lparr> duration := 1 \<rparr>] \<rparr>)"
  by (simp add: build_isNRQL validate_term_durations_def resourceNewRelicAlertCondition_def
      intInSliceDuration_def intInSlice_def nrql_doc_def metric_doc_def example_term_def)

section \<open>Reading back, and the lifecycle operations\<close>

lemma parseIDs_7_11: "parseIDs ''7:11'' 2 = Inr [7, 11]"
  by (simp add: parseIDs_def parseInteger_def isDigits_def isDigit_def digitsValue_def
      digitVal_def)

lemma entities_loop_fails:
  "s \<in> set es \<Longrightarrow> ParseInt s 32 = Inl e \<Longrightarrow> \<exists>e'. entities_loop es = Inl e'"
  by (induction es) (auto split: sum.splits)

lemma ParseInt_range: "ParseInt s 32 = Inr v \<Longrightarrow> is_int32 v"
  by (auto simp: ParseInt_def Let_def is_int32_def split: if_splits sum.splits numErr.splits)

lemma ParseInt_Itoa_int32: "is_int32 v \<Longrightarrow> ParseInt (Itoa v) 32 = Inr v"
  by (rule ParseInt_Itoa) (simp_all add: is_int32_def)

lemma entities_loop_range: "entities_loop es = Inr vs \<Longrightarrow> list_all is_int32 vs"
proof (induction es arbitrary: vs)
  case Nil
  then show ?case by simp
next
  case (Cons e es)
  then show ?case
    by (auto split: sum.splits dest: ParseInt_range)
qed

lemma entities_loop_Itoa: "list_all is_int32 vs \<Longrightarrow> entities_loop (map Itoa vs) = Inr vs"
  by (induction vs) (simp_all add: ParseInt_Itoa_int32)

lemma read_ok:
  "parseIDs (d_id d) 2 = Inr ids \<Longrightarrow> entities_loop (Entities x) = Inr vs \<Longrightarrow>
   readAlertConditionStruct x d =
     (None, d \<lparr> d_policy_id := ids ! 0, d_name := Name x, d_type := Type x,
                d_metric := Metric x, d_runbook_url := RunbookURL x,
                d_condition_scope := Scope x,
                d_user_defined_metric := UD_Metric (UserDefined x),
                d_user_defined_value_function := UD_ValueFunction (UserDefined x),
                d_value_function := ValueFunction x,
                d_entities := vs,
                d_term := map (\<lambda>src. \<lparr> duration = Duration src, operator = Operator src,
                                       priority = Priority src, threshold = Threshold src,
                                       time_function = TimeFunction src \<rparr>) (Terms x),
                d_nrql := map (\<lambda>src. \<lparr> query = Query src, since_value = SinceValue src \<rparr>)
                            (NRQL x) \<rparr>)"
  by (simp add: readAlertConditionStruct_def Set_def Let_def)

text \<open>
  Claim C10.  If the stored identifier does not decode into 2 integers, or some entity
  string of the remote condition is no valid 32-bit decimal integer, then
  \<open>readAlertConditionStruct\<close> returns an error and the document is as it was before
  the call: no field has been set.
\<close>

theorem C10_read_atomic:
  "(\<exists>e. parseIDs (d_id d) 2 = Inl e) \<or> (\<exists>s \<in> set (Entities c). \<exists>e. ParseInt s 32 = Inl e)
   \<Longrightarrow> \<exists>err. readAlertConditionStruct c d = (Some err, d)"
proof (cases "parseIDs (d_id d) 2")
  case (Inl e)
  then show ?thesis by (simp add: readAlertConditionStruct_def)
next
  case (Inr ids)
  assume "(\<exists>e. parseIDs (d_id d) 2 = Inl e) \<or> (\<exists>s \<in> set (Entities c). \<exists>e. ParseInt s 32 = Inl e)"
  with Inr have "\<exists>s \<in> set (Entities c). \<exists>e. ParseInt s 32 = Inl e" by simp
  then obtain s e0 where "s \<in> set (Entities c)" "ParseInt s 32 = Inl e0"
    by (elim bexE exE)
  then have "\<exists>e. entities_loop (Entities c) = Inl e" by (rule entities_loop_fails)
  then obtain e where "entities_loop (Entities c) = Inl e" by (elim exE)
  with Inr show ?thesis by (simp add: readAlertConditionStruct_def Let_def)
qed

lemma ParseInt_4x2: "ParseInt ''4x2'' 32 = Inl (ErrSyntax ''4x2'')"
  by (simp add: ParseInt_def ParseUint_def isDigit_def digitVal_def)

theorem C10_read_atomic_witness:
  "(\<exists>s \<in> set (Entities bad_entity_condition). \<exists>e. ParseInt s 32 = Inl e) \<and>
   (\<exists>err. readAlertConditionStruct bad_entity_condition metric_doc = (Some err, metric_doc)) \<and>
   (\<exists>e. parseIDs (d_id (metric_doc \<lparr> d_id := ''7'' \<rparr>)) 2 = Inl e) \<and>
   (\<exists>err. readAlertConditionStruct metric_condition (metric_doc \<lparr> d_id := ''7'' \<rparr>)
            = (Some err, metric_doc \<lparr> d_id := ''7'' \<rparr>))"
proof -
  have a: "\<exists>s \<in> set (Entities bad_entity_condition). \<exists>e. ParseInt s 32 = Inl e"
    by (simp add: bad_entity_condition_def ParseInt_4x2)
  have b: "\<exists>e. parseIDs (d_id (metric_doc \<lparr> d_id := ''7'' \<rparr>)) 2 = Inl e"
    by (simp add: parseIDs_def)
  have a': "\<exists>err. readAlertConditionStruct bad_entity_condition metric_doc = (Some err, metric_doc)"
    by (rule C10_read_atomic [OF disjI2 [OF a]])
  have b': "\<exists>err. readAlertConditionStruct metric_condition (metric_doc \<lparr> d_id := ''7'' \<rparr>)
            = (Some err, metric_doc \<lparr> d_id := ''7'' \<rparr>)"
    by (rule C10_read_atomic [OF disjI1 [OF b]])
  from a a' b b' show ?thesis by (intro conjI)
qed

text \<open>
  Claim C7.  When the remote call of an operation fails with error \<open>e\<close>: Read clears the
  id and returns success if \<open>e\<close> is the not-found error, and returns \<open>e\<close> with the
  document unchanged otherwise; Update, Delete and Create return \<open>e\<close> itself, not-found
  included, and leave the document unchanged.
\<close>

theorem C7_remote_errors:
  "(parseIDs (d_id d) 2 = Inr ids \<longrightarrow> GetAlertCondition client (ids ! 0) (ids ! 1) = Inl e \<longrightarrow>
      resourceNewRelicAlertConditionRead client d =
        (if e = ErrNotFound then (None, d \<lparr> d_id := [] \<rparr>) else (Some e, d))) \<and>
   (buildAlertConditionStruct g d = (g', Returned c) \<longrightarrow> parseIDs (d_id d) 2 = Inr ids \<longrightarrow>
      UpdateAlertCondition client (c \<lparr> PolicyID := ids ! 0, ID := ids ! 1 \<rparr>) = Inl e \<longrightarrow>
      resourceNewRelicAlertConditionUpdate client g d = (g', Returned (Some e, d))) \<and>
   (parseIDs (d_id d) 2 = Inr ids \<longrightarrow> DeleteAlertCondition client (ids ! 0) (ids ! 1) = Some e \<longrightarrow>
      resourceNewRelicAlertConditionDelete client d = (Some e, d)) \<and>
   (buildAlertConditionStruct g d = (g', Returned c) \<longrightarrow>
      CreateAlertCondition client c = Inl e \<longrightarrow>
      resourceNewRelicAlertConditionCreate client g d = (g', Returned (Some e, d)))"
proof (intro conjI impI)
  assume "parseIDs (d_id d) 2 = Inr ids" "GetAlertCondition client (ids ! 0) (ids ! 1) = Inl e"
  then show "resourceNewRelicAlertConditionRead client d =
        (if e = ErrNotFound then (None, d \<lparr> d_id := [] \<rparr>) else (Some e, d))"
    by (simp add: resourceNewRelicAlertConditionRead_def Let_def)
next
  assume "buildAlertConditionStruct g d = (g', Returned c)" "parseIDs (d_id d) 2 = Inr ids"
    "UpdateAlertCondition client (c \<lparr> PolicyID := ids ! 0, ID := ids ! 1 \<rparr>) = Inl e"
  then show "resourceNewRelicAlertConditionUpdate client g d = (g', Returned (Some e, d))"
    by (simp add: resourceNewRelicAlertConditionUpdate_def Let_def)
next
  assume "parseIDs (d_id d) 2 = Inr ids" "DeleteAlertCondition client (ids ! 0) (ids ! 1) = Some e"
  then show "resourceNewRelicAlertConditionDelete client d = (Some e, d)"
    by (simp add: resourceNewRelicAlertConditionDelete_def Let_def)
next
  assume "buildAlertConditionStruct g d = (g', Returned c)" "CreateAlertCondition client c = Inl e"
  then show "resourceNewRelicAlertConditionCreate client g d = (g', Returned (Some e, d))"
    by (simp add: resourceNewRelicAlertConditionCreate_def)
qed

theorem C7_remote_errors_witness:
  "resourceNewRelicAlertConditionRead (failing_client ErrNotFound) metric_doc
     = (None, metric_doc \<lparr> d_id := [] \<rparr>) \<and>
   resourceNewRelicAlertConditionRead (failing_client (RemoteError ''503'')) metric_doc
     = (Some (RemoteError ''503''), metric_doc) \<and>
   resourceNewRelicAlertConditionUpdate (failing_client ErrNotFound) isNRQL_init metric_doc
     = (False, Returned (Some ErrNotFound, metric_doc)) \<and>
   resourceNewRelicAlertConditionDelete (failing_client ErrNotFound) metric_doc
     = (Some ErrNotFound, metric_doc) \<and>
   resourceNewRelicAlertConditionCreate (failing_client (RemoteError ''503'')) isNRQL_init metric_doc
     = (False, Returned (Some (RemoteError ''503''), metric_doc))"
proof -
  have ids: "parseIDs (d_id metric_doc) 2 = Inr [7, 11]"
    by (simp add: metric_doc_def parseIDs_7_11)
  note nf = C7_remote_errors [where d = metric_doc and ids = "[7, 11]"
      and client = "failing_client ErrNotFound" and e = ErrNotFound
      and g = isNRQL_init and g' = False
      and c = "metric_condition \<lparr> ID := 0, ValueFunction := [] \<rparr>"]
  note re = C7_remote_errors [where d = metric_doc and ids = "[7, 11]"
      and client = "failing_client (RemoteError ''503'')" and e = "RemoteError ''503''"
      and g = isNRQL_init and g' = False
      and c = "metric_condition \<lparr> ID := 0, ValueFunction := [] \<rparr>"]
  from nf re ids build_metric_doc show ?thesis
    by (simp add: failing_client_def)
qed

lemma term_roundtrip:
  "map (\<lambda>termM. \<lparr> Duration = duration termM, Operator = operator termM,
                    Priority = priority termM, Threshold = threshold termM,
                    TimeFunction = time_function termM \<rparr>)
     (map (\<lambda>src. \<lparr> duration = Duration src, operator = Operator src,
                    priority = Priority src, threshold = Threshold src,
                    time_function = TimeFunction src \<rparr>) ts) = ts"
  by (induction ts) simp_all

lemma entities_loop_nonempty:
  "entities_loop es = Inr vs \<Longrightarrow> (vs = []) = (es = [])"
  by (cases es) (auto split: sum.splits)

text \<open>
  What the round trip does preserve.  Let the document's id decode into 2 integers, and
  let the remote condition \<open>x\<close> have entity strings that are 32-bit decimal integers,
  exactly one shape and a user-defined pair with both components or neither.  Then read
  succeeds and the build of the resulting document returns a condition with \<open>x\<close>'s
  name, type, metric, runbook URL, scope, terms and user-defined pair, and entities that
  are the decimal forms of the integers \<open>x\<close>'s entities denote; but its NRQL list and
  its value function are always empty, whatever \<open>x\<close> held.
\<close>

lemma roundtrip_copied_and_lost_fields:
  assumes ids: "parseIDs (d_id d) 2 = Inr ids"
    and ents: "entities_loop (Entities x) = Inr vs"
    and shape: "(NRQL x = [] \<and> Type x \<noteq> [] \<and> Entities x \<noteq> [] \<and> Metric x \<noteq> []) \<or>
                (NRQL x \<noteq> [] \<and> Type x = [] \<and> Entities x = [] \<and> Metric x = [])"
    and ud: "(UD_Metric (UserDefined x) = []) = (UD_ValueFunction (UserDefined x) = [])"
  shows "\<exists>d' c. readAlertConditionStruct x d = (None, d') \<and>
           snd (buildAlertConditionStruct g d') = Returned c \<and>
           Name c = Name x \<and> Type c = Type x \<and> Metric c = Metric x \<and>
           Entities c = map Itoa vs \<and> entities_loop (Entities c) = Inr vs \<and>
           RunbookURL c = RunbookURL x \<and> Scope c = Scope x \<and> Terms c = Terms x \<and>
           UserDefined c = UserDefined x \<and>
           NRQL c = [] \<and> ValueFunction c = []"
proof -
  note r = read_ok [OF ids ents]
  have ne: "(vs = []) = (Entities x = [])" by (rule entities_loop_nonempty [OF ents])
  have reparse: "entities_loop (map Itoa vs) = Inr vs"
    by (rule entities_loop_Itoa [OF entities_loop_range [OF ents]])
  from shape show ?thesis
  proof
    assume m: "NRQL x = [] \<and> Type x \<noteq> [] \<and> Entities x \<noteq> [] \<and> Metric x \<noteq> []"
    with ne have "vs \<noteq> []" by simp
    with m ud reparse show ?thesis
      unfolding r by (auto simp: build_defs term_roundtrip simp del: map_map)
  next
    assume n: "NRQL x \<noteq> [] \<and> Type x = [] \<and> Entities x = [] \<and> Metric x = []"
    with ne have "vs = []" by simp
    with n ud show ?thesis
      unfolding r by (auto simp: build_defs term_roundtrip simp del: map_map)
  qed
qed

lemma parseIDs_7_12: "parseIDs ''7:12'' 2 = Inr [7, 12]"
  by (simp add: parseIDs_def parseInteger_def isDigits_def isDigit_def digitsValue_def
      digitVal_def)

text \<open>
  Claim C2.  Building from the document that read produced is claimed to reproduce every
  mapped field of a remote condition, the NRQL entries and the value function among
  them.  Evaluated on a Metric-shaped remote condition with value function
  \<open>single_value\<close>, read succeeds, the build returns, and the rebuilt condition has an
  empty value function.  Evaluated on an NRQL-shaped remote condition with one NRQL
  entry and value function \<open>sum\<close>, read succeeds, the build returns, and the rebuilt
  condition has no NRQL entry and an empty value function: the build never stores the
  NRQL list it makes and never reads \<open>value_function\<close>.
\<close>

theorem C2_roundtrip_loses_nrql_and_value_function:
  "fst (readAlertConditionStruct metric_condition metric_doc) = None \<and>
   ValueFunction metric_condition = ''single_value'' \<and>
   map_option ValueFunction
     (returned (snd (buildAlertConditionStruct isNRQL_init
        (snd (readAlertConditionStruct metric_condition metric_doc))))) = Some [] \<and>
   fst (readAlertConditionStruct nrql_condition nrql_doc) = None \<and>
   length (NRQL nrql_condition) = 1 \<and> ValueFunction nrql_condition = ''sum'' \<and>
   map_option NRQL
     (returned (snd (buildAlertConditionStruct isNRQL_init
        (snd (readAlertConditionStruct nrql_condition nrql_doc))))) = Some [] \<and>
   map_option ValueFunction
     (returned (snd (buildAlertConditionStruct isNRQL_init
        (snd (readAlertConditionStruct nrql_condition nrql_doc))))) = Some []"
proof -
  have em: "entities_loop (Entities metric_condition) = Inr [42]"
    by (simp add: metric_condition_def ParseInt_def ParseUint_def isDigit_def digitVal_def)
  have im: "parseIDs (d_id metric_doc) 2 = Inr [7, 11]"
    by (simp add: metric_doc_def parseIDs_7_11)
  have en: "entities_loop (Entities nrql_condition) = Inr []"
    by (simp add: nrql_condition_def)
  have i: "parseIDs (d_id nrql_doc) 2 = Inr [7, 12]"
    by (simp add: nrql_doc_def parseIDs_7_12)
  have m: "fst (readAlertConditionStruct metric_condition metric_doc) = None \<and>
     ValueFunction metric_condition = ''single_value'' \<and>
     map_option ValueFunction
       (returned (snd (buildAlertConditionStruct isNRQL_init
          (snd (readAlertConditionStruct metric_condition metric_doc))))) = Some []"
    unfolding read_ok [OF im em]
    by (simp add: build_defs metric_condition_def)
  have n: "fst (readAlertConditionStruct nrql_condition nrql_doc) = None \<and>
     length (NRQL nrql_condition) = 1 \<and> ValueFunction nrql_condition = ''sum'' \<and>
     map_option NRQL
       (returned (snd (buildAlertConditionStruct isNRQL_init
          (snd (readAlertConditionStruct nrql_condition nrql_doc))))) = Some [] \<and>
     map_option ValueFunction
       (returned (snd (buildAlertConditionStruct isNRQL_init
          (snd (readAlertConditionStruct nrql_condition nrql_doc))))) = Some []"
    unfolding read_ok [OF i en]
    by (simp add: build_defs nrql_condition_def)
  from m n show ?thesis by simp
qed

end
